theory Spec2Isabelle
  imports Main "HOL-Library.Word" "HOL-Library.Mapping"
begin

section \<open>Shared data: errors, metrics, charts\<close>

text \<open>
  A Go \<^verbatim>\<open>error\<close> is modelled by its message. A nil pointer or nil interface whose method
  is called makes the Go runtime panic; that is the only panic the modelled code can raise.
\<close>

type_synonym error = string

datatype panic = NilPointerDereference

text \<open>
  \<^verbatim>\<open>map[string]int64\<close>: a Go map value is either nil or a reference to a table, and
  \<^verbatim>\<open>len\<close> of a nil map is 0. \<open>None\<close> is the nil map; an int64 is a 64-bit word
  (read with \<open>sint\<close>).
\<close>

type_synonym int64 = "64 word"

type_synonym metrics = "(string, int64) mapping option"

definition len :: "('k, 'v) mapping option \<Rightarrow> nat" where
  "len m = (case m of None \<Rightarrow> 0 | Some t \<Rightarrow> Mapping.size t)"

text \<open>
  \<^verbatim>\<open>module.Charts\<close> is a slice of charts (the test ranges over \<^verbatim>\<open>*w.Charts()\<close>); the
  tests read a chart's \<^verbatim>\<open>ID\<close>, its \<^verbatim>\<open>Dims\<close> and \<^verbatim>\<open>Vars\<close> and the \<^verbatim>\<open>ID\<close> of each of
  those.
\<close>

datatype Dim = Dim (dim_ID: string)

datatype Var = Var (var_ID: string)

record Chart =
  ID :: string
  Dims :: "Dim list"
  Vars :: "Var list"

type_synonym Charts = "Chart list"

section \<open>The WMI module\<close>

text \<open>
  \<^verbatim>\<open>Config\<close> embeds \<^verbatim>\<open>web.HTTP\<close>; the fields the module's code and tests touch are the
  request URL and the client timeout (a \<^verbatim>\<open>time.Duration\<close>, nanoseconds).
\<close>

record WMI_Config =
  URL :: string
  Timeout :: int

text \<open>The HTTP client and the Prometheus client are opaque handles of other packages.\<close>

datatype http_Client = http_Client nat

datatype Prometheus = Prometheus nat

text \<open>The \<^verbatim>\<open>cache\<close> struct: twelve \<^verbatim>\<open>map[string]bool\<close> fields.\<close>

record cache =
  cores :: "(string, bool) mapping"
  volumes :: "(string, bool) mapping"
  nics :: "(string, bool) mapping"
  thermalZones :: "(string, bool) mapping"
  processes :: "(string, bool) mapping"
  iis :: "(string, bool) mapping"
  adcs :: "(string, bool) mapping"
  mssqlInstances :: "(string, bool) mapping"
  mssqlDBs :: "(string, bool) mapping"
  services :: "(string, bool) mapping"
  collectors :: "(string, bool) mapping"
  collection :: "(string, bool) mapping"

text \<open>
  The \<^verbatim>\<open>WMI\<close> struct. \<open>logs\<close> stands for the logger of the embedded \<^verbatim>\<open>module.Base\<close>:
  \<^verbatim>\<open>w.Error\<close> and \<^verbatim>\<open>w.Errorf\<close> append a line and do nothing else.
\<close>

record WMI =
  Config :: WMI_Config
  charts :: Charts
  doCheck :: bool
  httpClient :: "http_Client option"
  prom :: "Prometheus option"
  cache :: cache
  logs :: "string list"

definition WMI_Error :: "string \<Rightarrow> WMI \<Rightarrow> WMI" where
  "WMI_Error msg w = w\<lparr>logs := logs w @ [msg]\<rparr>"

definition New :: WMI where
  "New = \<lparr>
     Config = \<lparr>URL = [], Timeout = 5 * 1000000000\<rparr>,
     charts = [],
     doCheck = False,
     httpClient = None,
     prom = None,
     cache = \<lparr>
       cores = Mapping.empty, volumes = Mapping.empty, nics = Mapping.empty,
       thermalZones = Mapping.empty, processes = Mapping.empty, iis = Mapping.empty,
       adcs = Mapping.empty, mssqlInstances = Mapping.empty, mssqlDBs = Mapping.empty,
       services = Mapping.empty, collectors = Mapping.empty, collection = Mapping.empty\<rparr>,
     logs = []\<rparr>"

text \<open>
  \<^verbatim>\<open>WMI.Collect\<close>. The unexported \<^verbatim>\<open>w.collect()\<close> is the first argument: it returns the
  metrics and an error and may change the module.
\<close>

definition WMI_Collect ::
  "(WMI \<Rightarrow> (metrics \<times> error option) \<times> WMI) \<Rightarrow> WMI \<Rightarrow> metrics \<times> WMI" where
  "WMI_Collect collect w =
     (case collect w of ((ms, err), w1) \<Rightarrow>
        let w2 = (case err of Some e \<Rightarrow> WMI_Error e w1 | None \<Rightarrow> w1)
        in if len ms = 0 then (None, w2) else (ms, w2))"

text \<open>\<^verbatim>\<open>WMI.Check\<close>: \<^verbatim>\<open>len(w.Collect()) > 0\<close>.\<close>

definition WMI_Check ::
  "(WMI \<Rightarrow> (metrics \<times> error option) \<times> WMI) \<Rightarrow> WMI \<Rightarrow> bool \<times> WMI" where
  "WMI_Check collect w =
     (case WMI_Collect collect w of (ms, w') \<Rightarrow> (len ms > 0, w'))"

text \<open>
  \<^verbatim>\<open>(*http.Client).CloseIdleConnections\<close> reads the receiver's transport: on a nil receiver
  it panics.
\<close>

definition CloseIdleConnections :: "http_Client option \<Rightarrow> panic + unit" where
  "CloseIdleConnections c = (case c of None \<Rightarrow> Inl NilPointerDereference | Some _ \<Rightarrow> Inr ())"

text \<open>\<^verbatim>\<open>WMI.Cleanup\<close>.\<close>

definition WMI_Cleanup :: "WMI \<Rightarrow> panic + WMI" where
  "WMI_Cleanup w =
     (if httpClient w \<noteq> None
      then (case CloseIdleConnections (httpClient w) of Inl p \<Rightarrow> Inl p | Inr _ \<Rightarrow> Inr w)
      else Inr w)"


section \<open>The NTPd module\<close>

datatype ntpConn = ntpConn nat

text \<open>
  The \<^verbatim>\<open>NTPd\<close> struct with its inlined \<^verbatim>\<open>Config\<close>. The function-valued field
  \<^verbatim>\<open>newClient\<close> and the timestamp \<^verbatim>\<open>findPeersTime\<close> are used only inside the unexported
  \<^verbatim>\<open>collect\<close>, which is an argument here, and are left out. \<^verbatim>\<open>systemCharts\<close> is a table
  of another file: \<open>NTPd_New\<close> takes it.
\<close>

record NTPd =
  Address :: string
  ntpd_Timeout :: int
  CollectPeers :: bool
  ntpd_charts :: Charts
  client :: "ntpConn option"
  findPeersEvery :: int
  peerAddr :: "(string, bool) mapping"
  peerIDs :: "16 word list"
  ntpd_logs :: "string list"

definition NTPd_New :: "Charts \<Rightarrow> NTPd" where
  "NTPd_New systemCharts = \<lparr>
     Address = ''127.0.0.1:123'',
     ntpd_Timeout = 3 * 1000000000,
     CollectPeers = True,
     ntpd_charts = systemCharts,
     client = None,
     findPeersEvery = 3 * 60 * 1000000000,
     peerAddr = Mapping.empty,
     peerIDs = [],
     ntpd_logs = []\<rparr>"

definition NTPd_Error :: "string \<Rightarrow> NTPd \<Rightarrow> NTPd" where
  "NTPd_Error msg n = n\<lparr>ntpd_logs := ntpd_logs n @ [msg]\<rparr>"


text \<open>\<^verbatim>\<open>NTPd.Collect\<close> and \<^verbatim>\<open>NTPd.Check\<close>, with \<^verbatim>\<open>n.collect()\<close> as an argument.\<close>

definition NTPd_Collect ::
  "(NTPd \<Rightarrow> (metrics \<times> error option) \<times> NTPd) \<Rightarrow> NTPd \<Rightarrow> metrics \<times> NTPd" where
  "NTPd_Collect collect n =
     (case collect n of ((mx, err), n1) \<Rightarrow>
        let n2 = (case err of Some e \<Rightarrow> NTPd_Error e n1 | None \<Rightarrow> n1)
        in if len mx = 0 then (None, n2) else (mx, n2))"

definition NTPd_Check ::
  "(NTPd \<Rightarrow> (metrics \<times> error option) \<times> NTPd) \<Rightarrow> NTPd \<Rightarrow> bool \<times> NTPd" where
  "NTPd_Check collect n =
     (case NTPd_Collect collect n of (mx, n') \<Rightarrow> (len mx > 0, n'))"

text \<open>\<^verbatim>\<open>ntpConn.close\<close> called through a nil interface value panics.\<close>

definition ntpConn_close :: "ntpConn option \<Rightarrow> panic + unit" where
  "ntpConn_close c = (case c of None \<Rightarrow> Inl NilPointerDereference | Some _ \<Rightarrow> Inr ())"

text \<open>\<^verbatim>\<open>NTPd.Cleanup\<close>.\<close>

definition NTPd_Cleanup :: "NTPd \<Rightarrow> panic + NTPd" where
  "NTPd_Cleanup n =
     (if client n \<noteq> None
      then (case ntpConn_close (client n) of
              Inl p \<Rightarrow> Inl p
            | Inr _ \<Rightarrow> Inr (n\<lparr>client := None\<rparr>))
      else Inr n)"

section \<open>The NvidiaSMI module\<close>

datatype nvidiaSMI = nvidiaSMI nat

record NvidiaSMI =
  nv_Timeout :: int
  BinaryPath :: string
  UseCSVFormat :: bool
  nv_charts :: Charts
  binName :: string
  exec :: "nvidiaSMI option"
  gpuQueryProperties :: "string list"
  gpus :: "(string, bool) mapping"
  nv_logs :: "string list"

definition NvidiaSMI_New :: NvidiaSMI where
  "NvidiaSMI_New = \<lparr>
     nv_Timeout = 5 * 1000000000,
     BinaryPath = [],
     UseCSVFormat = True,
     nv_charts = [],
     binName = ''nvidia-smi'',
     exec = None,
     gpuQueryProperties = [],
     gpus = Mapping.empty,
     nv_logs = []\<rparr>"

definition NvidiaSMI_Error :: "string \<Rightarrow> NvidiaSMI \<Rightarrow> NvidiaSMI" where
  "NvidiaSMI_Error msg nv = nv\<lparr>nv_logs := nv_logs nv @ [msg]\<rparr>"

text \<open>\<^verbatim>\<open>NvidiaSMI.Collect\<close> and \<^verbatim>\<open>NvidiaSMI.Check\<close>, with \<^verbatim>\<open>nv.collect()\<close> as an argument.\<close>

definition NvidiaSMI_Collect ::
  "(NvidiaSMI \<Rightarrow> (metrics \<times> error option) \<times> NvidiaSMI) \<Rightarrow> NvidiaSMI \<Rightarrow> metrics \<times> NvidiaSMI" where
  "NvidiaSMI_Collect collect nv =
     (case collect nv of ((mx, err), nv1) \<Rightarrow>
        let nv2 = (case err of Some e \<Rightarrow> NvidiaSMI_Error e nv1 | None \<Rightarrow> nv1)
        in if len mx = 0 then (None, nv2) else (mx, nv2))"

definition NvidiaSMI_Check ::
  "(NvidiaSMI \<Rightarrow> (metrics \<times> error option) \<times> NvidiaSMI) \<Rightarrow> NvidiaSMI \<Rightarrow> bool \<times> NvidiaSMI" where
  "NvidiaSMI_Check collect nv =
     (case NvidiaSMI_Collect collect nv of (mx, nv') \<Rightarrow> (len mx > 0, nv'))"

section \<open>The collection cycle and the helpers of Init\<close>

text \<open>
  Modelled from the spec: the unexported \<^verbatim>\<open>collect()\<close> of the WMI module is not among the
  sources. Section 4.3: "invokes Sample Source to obtain raw data; on transport failure
  (connection refused, timeout, non-2xx HTTP-equivalent status, process exec failure)
  returns no snapshot and surfaces the transport error; feeds raw data to Normalizer; on
  Normalizer failure (ErrBadPayload) returns no snapshot; otherwise runs Chart Synchronizer
  against every EntityClass's seen-set computed by the Normalizer, then returns the
  completed Snapshot." \<open>source\<close> is what the Sample Source answered in this cycle (an
  error or the raw data); the Normalizer and the Chart Synchronizer are arguments. The
  Normalizer returns the snapshot and the seen-sets.
\<close>

definition collect ::
  "error + 'raw \<Rightarrow> ('raw \<Rightarrow> error + (string, int64) mapping \<times> 'seen) \<Rightarrow>
   ('seen \<Rightarrow> WMI \<Rightarrow> WMI) \<Rightarrow> WMI \<Rightarrow> (metrics \<times> error option) \<times> WMI" where
  "collect source normalizer sync w =
     (case source of
        Inl err \<Rightarrow> ((None, Some err), w)
      | Inr raw \<Rightarrow>
          (case normalizer raw of
             Inl err \<Rightarrow> ((None, Some err), w)
           | Inr (mx, seenIDs) \<Rightarrow> ((Some mx, None), sync seenIDs w)))"




section \<open>Collect and Check\<close>

text \<open>
  C9. If the internal collection step returns both an error and a non-empty metrics map,
  the public Collect still returns that map, in each of the three modules; the error only
  adds a line to the module's log.
\<close>

theorem Collect_returns_metrics_despite_error:
  assumes "0 < len ms"
    and "cw w = ((ms, Some e), w1)"
    and "cn n = ((ms, Some e), n1)"
    and "cv nv = ((ms, Some e), nv1)"
  shows "WMI_Collect cw w = (ms, WMI_Error e w1)
       \<and> NTPd_Collect cn n = (ms, NTPd_Error e n1)
       \<and> NvidiaSMI_Collect cv nv = (ms, NvidiaSMI_Error e nv1)"
  using assms by (simp add: WMI_Collect_def NTPd_Collect_def NvidiaSMI_Collect_def)

theorem Collect_returns_metrics_despite_error_witness:
  "WMI_Collect (\<lambda>w. ((Some (Mapping.update ''system_threads'' 1559 Mapping.empty), Some ''boom''), w)) New
     = (Some (Mapping.update ''system_threads'' 1559 Mapping.empty), WMI_Error ''boom'' New)
   \<and> NTPd_Collect (\<lambda>n. ((Some (Mapping.update ''system_threads'' 1559 Mapping.empty), Some ''boom''), n)) (NTPd_New [])
     = (Some (Mapping.update ''system_threads'' 1559 Mapping.empty), NTPd_Error ''boom'' (NTPd_New []))
   \<and> NvidiaSMI_Collect (\<lambda>nv. ((Some (Mapping.update ''system_threads'' 1559 Mapping.empty), Some ''boom''), nv)) NvidiaSMI_New
     = (Some (Mapping.update ''system_threads'' 1559 Mapping.empty), NvidiaSMI_Error ''boom'' NvidiaSMI_New)
   \<and> logs (WMI_Error ''boom'' New) = [''boom'']"
proof -
  have pos: "0 < len (Some (Mapping.update ''system_threads'' (1559::int64) Mapping.empty))"
    by (simp add: len_def Mapping.size_def)
  show ?thesis
    using Collect_returns_metrics_despite_error
      [where ms = "Some (Mapping.update ''system_threads'' 1559 Mapping.empty)"
         and e = "''boom''"
         and cw = "\<lambda>w. ((Some (Mapping.update ''system_threads'' 1559 Mapping.empty), Some ''boom''), w)"
         and w = New and ?w1.0 = New
         and cn = "\<lambda>n. ((Some (Mapping.update ''system_threads'' 1559 Mapping.empty), Some ''boom''), n)"
         and n = "NTPd_New []" and ?n1.0 = "NTPd_New []"
         and cv = "\<lambda>nv. ((Some (Mapping.update ''system_threads'' 1559 Mapping.empty), Some ''boom''), nv)"
         and nv = NvidiaSMI_New and ?nv1.0 = NvidiaSMI_New, OF pos]
    by (simp add: WMI_Error_def New_def)
qed

text \<open>
  C5. In each of the three modules Check is true exactly when Collect returns a non-empty
  map. Collect returns what the collection step returned when that is non-empty and nil
  otherwise, whether or not an error came with it: the result is nil or non-empty, never
  an empty map, and Check is true exactly when it is not nil.
\<close>

theorem Check_iff_Collect_nonempty:
  "fst (WMI_Check cw w) = (0 < len (fst (WMI_Collect cw w)))
   \<and> fst (NTPd_Check cn n) = (0 < len (fst (NTPd_Collect cn n)))
   \<and> fst (NvidiaSMI_Check cv nv) = (0 < len (fst (NvidiaSMI_Collect cv nv)))
   \<and> fst (WMI_Collect cw w) = (if len (fst (fst (cw w))) = 0 then None else fst (fst (cw w)))
   \<and> fst (NTPd_Collect cn n) = (if len (fst (fst (cn n))) = 0 then None else fst (fst (cn n)))
   \<and> fst (NvidiaSMI_Collect cv nv) = (if len (fst (fst (cv nv))) = 0 then None else fst (fst (cv nv)))
   \<and> fst (WMI_Check cw w) = (fst (WMI_Collect cw w) \<noteq> None)
   \<and> fst (NTPd_Check cn n) = (fst (NTPd_Collect cn n) \<noteq> None)
   \<and> fst (NvidiaSMI_Check cv nv) = (fst (NvidiaSMI_Collect cv nv) \<noteq> None)"
  by (auto simp add: WMI_Check_def WMI_Collect_def NTPd_Check_def NTPd_Collect_def
      NvidiaSMI_Check_def NvidiaSMI_Collect_def Let_def len_def split: prod.splits option.splits)

theorem Check_iff_Collect_nonempty_witness:
  "fst (WMI_Check (\<lambda>w. ((Some (Mapping.update ''system_threads'' 1559 Mapping.empty), None), w)) New)
   \<and> \<not> fst (WMI_Check (\<lambda>w. ((Some Mapping.empty, None), w)) New)
   \<and> fst (WMI_Collect (\<lambda>w. ((Some Mapping.empty, None), w)) New) = None
   \<and> \<not> fst (NTPd_Check (\<lambda>n. ((None, Some ''connection refused''), n)) (NTPd_New []))
   \<and> fst (NvidiaSMI_Collect (\<lambda>nv. ((Some Mapping.empty, Some ''bad payload''), nv)) NvidiaSMI_New) = None"
  using Check_iff_Collect_nonempty
    [of "\<lambda>w. ((Some (Mapping.update ''system_threads'' 1559 Mapping.empty), None), w)" New
        "\<lambda>n. ((None, Some ''connection refused''), n)" "NTPd_New []"
        "\<lambda>nv. ((Some Mapping.empty, Some ''bad payload''), nv)" NvidiaSMI_New]
    Check_iff_Collect_nonempty
    [of "\<lambda>w. ((Some Mapping.empty, None), w)" New
        "\<lambda>n. ((None, Some ''connection refused''), n)" "NTPd_New []"
        "\<lambda>nv. ((Some Mapping.empty, Some ''bad payload''), nv)" NvidiaSMI_New]
  by (simp add: len_def Mapping.size_def)

text \<open>
  C2. If the Sample Source fails, or the Normalizer fails on what the source returned, the
  cycle returns no snapshot (Collect returns nil and Check is false) and the module's cache
  and charts are what they were before the call, whatever the Chart Synchronizer would have
  done; the call only logs the error.
\<close>

theorem collect_failure_atomic:
  assumes "source = Inl err \<or> (\<exists>raw. source = Inr raw \<and> normalizer raw = Inl err)"
  shows "WMI_Collect (collect source normalizer sync) w = (None, WMI_Error err w)
       \<and> cache (snd (WMI_Collect (collect source normalizer sync) w)) = cache w
       \<and> charts (snd (WMI_Collect (collect source normalizer sync) w)) = charts w
       \<and> \<not> fst (WMI_Check (collect source normalizer sync) w)"
  using assms
  by (auto simp add: WMI_Collect_def WMI_Check_def collect_def len_def WMI_Error_def)

theorem collect_failure_atomic_witness:
  "fst (WMI_Collect (collect (Inl ''connection refused'') (\<lambda>raw :: string. Inl ''bad payload'')
          (\<lambda>(s::unit) w. w\<lparr>charts := []\<rparr>)) New) = None
   \<and> cache (snd (WMI_Collect (collect (Inl ''connection refused'') (\<lambda>raw :: string. Inl ''bad payload'')
          (\<lambda>(s::unit) w. w\<lparr>charts := []\<rparr>)) New)) = cache New
   \<and> fst (WMI_Collect (collect (Inr ''hello and goodbye'') (\<lambda>raw :: string. Inl ''bad payload'')
          (\<lambda>(s::unit) w. w\<lparr>charts := []\<rparr>)) New) = None"
  using collect_failure_atomic
      [of "Inl ''connection refused''" "''connection refused''"
          "\<lambda>raw :: string. Inl ''bad payload''" "\<lambda>(s::unit) w. w\<lparr>charts := []\<rparr>" New]
    collect_failure_atomic
      [of "Inr ''hello and goodbye''" "''bad payload''"
          "\<lambda>raw :: string. Inl ''bad payload''" "\<lambda>(s::unit) w. w\<lparr>charts := []\<rparr>" New]
  by (simp add: WMI_Error_def)

section \<open>Cleanup\<close>

text \<open>
  C10. Cleanup of a freshly constructed WMI or NTPd module returns normally, although
  calling the closing method on the nil client would panic: both calls are guarded. Cleanup
  returns normally on every module state; NTPd's sets the client to nil, and a second
  Cleanup returns normally and changes nothing.
\<close>

theorem Cleanup_never_panics:
  "WMI_Cleanup New = Inr New
   \<and> NTPd_Cleanup (NTPd_New systemCharts) = Inr (NTPd_New systemCharts)
   \<and> WMI_Cleanup w = Inr w
   \<and> NTPd_Cleanup n = Inr (n\<lparr>client := None\<rparr>)
   \<and> NTPd_Cleanup (n\<lparr>client := None\<rparr>) = Inr (n\<lparr>client := None\<rparr>)
   \<and> CloseIdleConnections (httpClient New) = Inl NilPointerDereference
   \<and> ntpConn_close (client (NTPd_New systemCharts)) = Inl NilPointerDereference"
  by (auto simp add: WMI_Cleanup_def NTPd_Cleanup_def CloseIdleConnections_def ntpConn_close_def
      New_def NTPd_New_def split: option.splits)

section \<open>Init\<close>



end
